theory Spec2Isabelle
  imports Main "HOL-Library.Sublist"
begin

section \<open>Strings of the Go standard library used by the path scheme\<close>

text \<open>
  A Go string is a sequence of bytes; it is modelled as a \<^typ>\<open>string\<close>, one
  \<^typ>\<open>char\<close> per byte.

  \<^verbatim>\<open>strings.Replace(s, old, new, -1)\<close> replaces every non-overlapping
  occurrence of \<open>old\<close> in \<open>s\<close>, scanning from the left. Only a non-empty
  \<open>old\<close> is modelled (the program passes \<^verbatim>\<open>"."\<close>); the equations leave
  the empty \<open>old\<close> unspecified.
\<close>

fun Replace :: "string \<Rightarrow> string \<Rightarrow> string \<Rightarrow> string" where
  "Replace [] (a # as) new = []"
| "Replace (c # cs) (a # as) new =
     (if prefix (a # as) (c # cs)
      then new @ Replace (drop (length as) cs) (a # as) new
      else c # Replace cs (a # as) new)"

text \<open>
  \<^verbatim>\<open>strings.ToLower\<close>: when every byte of the string is below
  \<^verbatim>\<open>utf8.RuneSelf\<close> (128) the bytes \<^verbatim>\<open>'A'..'Z'\<close> are shifted by
  \<^verbatim>\<open>'a' - 'A'\<close> and the others are kept; otherwise the result is
  \<^verbatim>\<open>strings.Map(unicode.ToLower, s)\<close>, whose Unicode tables are not part of the
  program and are taken as the parameter \<open>U\<close>.
\<close>

definition isASCII :: "char \<Rightarrow> bool" where
  "isASCII c = ((of_char c :: nat) < 128)"

definition isUpperASCII :: "char \<Rightarrow> bool" where
  "isUpperASCII c = (65 \<le> (of_char c :: nat) \<and> (of_char c :: nat) \<le> 90)"

definition toLowerByte :: "char \<Rightarrow> char" where
  "toLowerByte c = (if isUpperASCII c then char_of ((of_char c :: nat) + 32) else c)"

definition ToLower :: "(string \<Rightarrow> string) \<Rightarrow> string \<Rightarrow> string" where
  "ToLower U s = (if list_all isASCII s then map toLowerByte s else U s)"

section \<open>The path naming scheme\<close>

record GroupVersionKind =
  Group :: string
  Version :: string
  Kind :: string

definition generateMutatePath ::
  "(string \<Rightarrow> string) \<Rightarrow> 'a GroupVersionKind_scheme \<Rightarrow> string" where
  "generateMutatePath U gvk =
     ''/mutate-'' @ Replace (Group gvk) ''.'' ''-'' @ ''-'' @
       Version gvk @ ''-'' @ ToLower U (Kind gvk)"

definition generateValidatePath ::
  "(string \<Rightarrow> string) \<Rightarrow> 'a GroupVersionKind_scheme \<Rightarrow> string" where
  "generateValidatePath U gvk =
     ''/validate-'' @ Replace (Group gvk) ''.'' ''-'' @ ''-'' @
       Version gvk @ ''-'' @ ToLower U (Kind gvk)"

section \<open>The builder, its manager and the collaborators\<close>

text \<open>
  \<^verbatim>\<open>rest.Config\<close> and \<^verbatim>\<open>runtime.Scheme\<close> are opaque handles here, and a Go
  \<^verbatim>\<open>error\<close> value is its message. The program hands the collaborator's error
  value back as it is; the constructor of \<open>error\<close> records which of the two resolution
  steps returned it.
\<close>

type_synonym Config = nat
type_synonym Scheme = nat
type_synonym err = string

datatype error = ConfigResolutionError err | TypeResolutionError err

text \<open>
  A non-nil \<^verbatim>\<open>runtime.Object\<close>: the name of its dynamic type and whether that
  type implements \<^verbatim>\<open>admission.Defaulter\<close> and \<^verbatim>\<open>admission.Validator\<close>.
  The nil interface value is \<open>None\<close>.
\<close>

record Object =
  typeName :: string
  isDefaulter :: bool
  isValidator :: bool

definition asDefaulter :: "Object option \<Rightarrow> Object option" where
  "asDefaulter obj =
     (case obj of None \<Rightarrow> None | Some x \<Rightarrow> if isDefaulter x then Some x else None)"

definition asValidator :: "Object option \<Rightarrow> Object option" where
  "asValidator obj =
     (case obj of None \<Rightarrow> None | Some x \<Rightarrow> if isValidator x then Some x else None)"

datatype handler = Webhook nat | NotFoundHandler

text \<open>
  \<^verbatim>\<open>manager.Manager\<close>: the config and the scheme it supplies. The webhook server
  it supplies is mutable and lives in the state below.
\<close>

record Manager =
  GetConfig :: "Config option"
  GetScheme :: Scheme

record WebhookBuilder =
  apiType :: "Object option"
  gvk :: GroupVersionKind
  mgr :: "Manager option"
  config :: "Config option"

definition WebhookManagedBy :: "Manager option \<Rightarrow> WebhookBuilder" where
  "WebhookManagedBy m =
     \<lparr>apiType = None, gvk = \<lparr>Group = [], Version = [], Kind = []\<rparr>, mgr = m, config = None\<rparr>"

definition For :: "Object option \<Rightarrow> WebhookBuilder \<Rightarrow> WebhookBuilder" where
  "For obj blder = blder\<lparr>apiType := obj\<rparr>"

text \<open>
  The functions the program calls and does not define: the ambient config loader
  \<^verbatim>\<open>getConfig\<close>, \<^verbatim>\<open>apiutil.GVKForObject\<close>, the two handler constructors,
  \<^verbatim>\<open>conversion.CheckConvertibility\<close>, and the Unicode part of
  \<^verbatim>\<open>strings.ToLower\<close>. Each is a function of its arguments, so a second call with
  the same arguments gives the same result. A Go result pair \<^verbatim>\<open>(value, error)\<close> is a
  pair whose second component is \<open>None\<close> for the nil error.
\<close>

record Collaborators =
  getConfig :: "Config option \<times> err option"
  GVKForObject :: "Object option \<Rightarrow> Scheme \<Rightarrow> GroupVersionKind \<times> err option"
  DefaultingWebhookFor :: "Object \<Rightarrow> handler option"
  ValidatingWebhookFor :: "Object \<Rightarrow> handler option"
  CheckConvertibility :: "Scheme \<Rightarrow> Object option \<Rightarrow> err option"
  unicodeToLower :: "string \<Rightarrow> string"

subsection \<open>The shared webhook server\<close>

text \<open>
  Modelled from the spec: the webhook server of the host manager, which is not in the
  source file. The spec gives it a path-to-handler table with a path-registration and a
  path-lookup operation. The table is kept as the list of registrations, oldest first.
\<close>

record Server =
  webhooks :: "(string \<times> handler) list"

text \<open>
  Modelled from the spec: the server's path-registration operation, absent from the
  source file; it enters the handler in the path table.
\<close>

definition Register :: "string \<Rightarrow> handler \<Rightarrow> Server \<Rightarrow> Server" where
  "Register path hook s = s\<lparr>webhooks := webhooks s @ [(path, hook)]\<rparr>"

text \<open>
  Modelled from the spec: the server's path-lookup operation
  (\<^verbatim>\<open>WebhookMux.Handler\<close>), absent from the source file. It returns a handler
  and the matched path. The spec speaks of the router's prefix and fallback semantics: a
  path with an entry of its own matches that entry; otherwise the longest registered
  path that ends in a slash and is a prefix of the requested path matches; otherwise
  the fallback handler is returned with the empty matched path.
\<close>

definition isSubtree :: "string \<Rightarrow> string \<Rightarrow> bool" where
  "isSubtree p path = (p \<noteq> [] \<and> last p = CHR ''/'' \<and> prefix p path)"

fun longestMatch :: "(string \<times> handler) list \<Rightarrow> string \<Rightarrow> (string \<times> handler) option" where
  "longestMatch [] path = None"
| "longestMatch ((p, h) # rest) path =
     (case longestMatch rest path of
        None \<Rightarrow> if isSubtree p path then Some (p, h) else None
      | Some (q, k) \<Rightarrow>
          if isSubtree p path \<and> length q \<le> length p then Some (p, h) else Some (q, k))"

definition mux_Handler :: "Server \<Rightarrow> string \<Rightarrow> handler option \<times> string" where
  "mux_Handler s path =
     (case map_of (webhooks s) path of
        Some h \<Rightarrow> (Some h, path)
      | None \<Rightarrow>
          (case longestMatch (webhooks s) path of
             Some (p, h) \<Rightarrow> (Some h, p)
           | None \<Rightarrow> (Some NotFoundHandler, [])))"

subsection \<open>State and results\<close>

text \<open>
  What the program does besides returning: it calls collaborators and writes log lines.
  The state holds the builder, the webhook server that the bound manager's
  \<^verbatim>\<open>GetWebhookServer()\<close> returns, and these events, oldest first.
\<close>

datatype event =
    CallGetConfig
  | CallGVKForObject
  | CallCheckConvertibility
  | LogInfo string GroupVersionKind string
  | LogError err string GroupVersionKind

record state =
  blder :: WebhookBuilder
  server :: Server
  events :: "event list"

text \<open>A call either returns or panics (a method call on the nil manager).\<close>

datatype 'a result = Return 'a | Panic

subsection \<open>The operations of the source file\<close>

definition loadRestConfig :: "Collaborators \<Rightarrow> state \<Rightarrow> error option \<times> state" where
  "loadRestConfig E st =
     (if config (blder st) \<noteq> None then (None, st)
      else case mgr (blder st) of
        Some m \<Rightarrow> (None, st\<lparr>blder := (blder st)\<lparr>config := GetConfig m\<rparr>\<rparr>)
      | None \<Rightarrow>
          (case getConfig E of
             (c, e) \<Rightarrow>
               (map_option ConfigResolutionError e,
                st\<lparr>blder := (blder st)\<lparr>config := c\<rparr>,
                   events := events st @ [CallGetConfig]\<rparr>)))"

definition isAlreadyHandled :: "state \<Rightarrow> string \<Rightarrow> bool result" where
  "isAlreadyHandled st path =
     (case mgr (blder st) of
        None \<Rightarrow> Panic
      | Some m \<Rightarrow>
          (case mux_Handler (server st) path of
             (h, p) \<Rightarrow> if p = path \<and> h \<noteq> None then Return True else Return False))"

definition registerDefaultingWebhook :: "Collaborators \<Rightarrow> state \<Rightarrow> unit result \<times> state" where
  "registerDefaultingWebhook E st =
     (case asDefaulter (apiType (blder st)) of
        None \<Rightarrow> (Return (), st)
      | Some defaulter \<Rightarrow>
          (case DefaultingWebhookFor E defaulter of
             None \<Rightarrow> (Return (), st)
           | Some mwh \<Rightarrow>
               (let path = generateMutatePath (unicodeToLower E) (gvk (blder st)) in
                case isAlreadyHandled st path of
                  Panic \<Rightarrow> (Panic, st)
                | Return handled \<Rightarrow>
                    if \<not> handled
                    then (Return (),
                          st\<lparr>server := Register path mwh (server st),
                             events := events st @
                               [LogInfo ''Registering a mutating webhook'' (gvk (blder st)) path]\<rparr>)
                    else (Return (), st))))"

definition registerValidatingWebhook :: "Collaborators \<Rightarrow> state \<Rightarrow> unit result \<times> state" where
  "registerValidatingWebhook E st =
     (case asValidator (apiType (blder st)) of
        None \<Rightarrow> (Return (), st)
      | Some validator \<Rightarrow>
          (case ValidatingWebhookFor E validator of
             None \<Rightarrow> (Return (), st)
           | Some vwh \<Rightarrow>
               (let path = generateValidatePath (unicodeToLower E) (gvk (blder st)) in
                case isAlreadyHandled st path of
                  Panic \<Rightarrow> (Panic, st)
                | Return handled \<Rightarrow>
                    if \<not> handled
                    then (Return (),
                          st\<lparr>server := Register path vwh (server st),
                             events := events st @
                               [LogInfo ''Registering a validating webhook'' (gvk (blder st)) path]\<rparr>)
                    else (Return (), st))))"

definition registerWebhooks :: "Collaborators \<Rightarrow> state \<Rightarrow> error option result \<times> state" where
  "registerWebhooks E st =
     (case mgr (blder st) of
        None \<Rightarrow> (Panic, st)
      | Some m \<Rightarrow>
          (case GVKForObject E (apiType (blder st)) (GetScheme m) of
             (g, e) \<Rightarrow>
               (let st1 = st\<lparr>blder := (blder st)\<lparr>gvk := g\<rparr>,
                              events := events st @ [CallGVKForObject]\<rparr> in
                case e of
                  Some x \<Rightarrow> (Return (Some (TypeResolutionError x)), st1)
                | None \<Rightarrow>
                    (case registerDefaultingWebhook E st1 of
                       (Panic, st2) \<Rightarrow> (Panic, st2)
                     | (Return u, st2) \<Rightarrow>
                         (case registerValidatingWebhook E st2 of
                            (Panic, st3) \<Rightarrow> (Panic, st3)
                          | (Return v, st3) \<Rightarrow>
                              (case mgr (blder st3) of
                                 None \<Rightarrow> (Panic, st3)
                               | Some m' \<Rightarrow>
                                   (case CheckConvertibility E (GetScheme m') (apiType (blder st3)) of
                                      Some x \<Rightarrow>
                                        (Return None,
                                         st3\<lparr>events := events st3 @
                                              [CallCheckConvertibility,
                                               LogError x ''conversion check failed''
                                                 (gvk (blder st3))]\<rparr>)
                                    | None \<Rightarrow>
                                        (Return None,
                                         st3\<lparr>events := events st3 @
                                              [CallCheckConvertibility]\<rparr>))))))))"

definition Complete :: "Collaborators \<Rightarrow> state \<Rightarrow> error option result \<times> state" where
  "Complete E st =
     (case loadRestConfig E st of
        (Some e, st1) \<Rightarrow> (Return (Some e), st1)
      | (None, st1) \<Rightarrow> registerWebhooks E st1)"

section \<open>What the design expects of a run\<close>

text \<open>
  The following definitions follow the words of the design, to be compared with the
  operations above. A string is free of dashes when no byte of it is a dash.
\<close>

definition dashFree :: "string \<Rightarrow> bool" where
  "dashFree s = (CHR ''-'' \<notin> set s)"

definition dotToDash :: "char \<Rightarrow> char" where
  "dotToDash c = (if c = CHR ''.'' then CHR ''-'' else c)"

text \<open>The paths that have an entry of their own in the server's table.\<close>

definition registeredPaths :: "Server \<Rightarrow> string set" where
  "registeredPaths s = fst ` set (webhooks s)"

text \<open>
  Step 3 of \<open>Complete\<close> in the design: a type with the defaulting capability whose
  handler constructor gives a handler has that handler entered at the mutate path, unless
  the path has an entry already. Step 4 is the same for the validation capability and the
  validate path.
\<close>

definition expectedMutating ::
  "Collaborators \<Rightarrow> Object option \<Rightarrow> GroupVersionKind \<Rightarrow> Server \<Rightarrow> (string \<times> handler) list" where
  "expectedMutating E obj g s =
     (case asDefaulter obj of
        None \<Rightarrow> []
      | Some d \<Rightarrow>
          (case DefaultingWebhookFor E d of
             None \<Rightarrow> []
           | Some mwh \<Rightarrow>
               if generateMutatePath (unicodeToLower E) g \<in> registeredPaths s then []
               else [(generateMutatePath (unicodeToLower E) g, mwh)]))"

definition expectedValidating ::
  "Collaborators \<Rightarrow> Object option \<Rightarrow> GroupVersionKind \<Rightarrow> Server \<Rightarrow> (string \<times> handler) list" where
  "expectedValidating E obj g s =
     (case asValidator obj of
        None \<Rightarrow> []
      | Some v \<Rightarrow>
          (case ValidatingWebhookFor E v of
             None \<Rightarrow> []
           | Some vwh \<Rightarrow>
               if generateValidatePath (unicodeToLower E) g \<in> registeredPaths s then []
               else [(generateValidatePath (unicodeToLower E) g, vwh)]))"

text \<open>
  The log lines of the registrations, the events of the conversion check (step 5: a
  failure is logged with the resolved identity and nothing else happens), and the state
  the design expects after a run of \<open>Complete\<close> with a bound manager \<open>m\<close> whose
  registry resolves the type to \<open>g\<close>: the config is the explicit one or else the
  manager's, the identity is \<open>g\<close>, the table has gained the expected entries, mutating
  before validating.
\<close>

definition registrationLog :: "string \<Rightarrow> GroupVersionKind \<Rightarrow> (string \<times> handler) list \<Rightarrow> event list" where
  "registrationLog msg g entries = map (\<lambda>entry. LogInfo msg g (fst entry)) entries"

definition conversionLog ::
  "Collaborators \<Rightarrow> Manager \<Rightarrow> Object option \<Rightarrow> GroupVersionKind \<Rightarrow> event list" where
  "conversionLog E m obj g =
     CallCheckConvertibility #
       (case CheckConvertibility E (GetScheme m) obj of
          None \<Rightarrow> []
        | Some e \<Rightarrow> [LogError e ''conversion check failed'' g])"

definition expectedState :: "Collaborators \<Rightarrow> state \<Rightarrow> Manager \<Rightarrow> GroupVersionKind \<Rightarrow> state" where
  "expectedState E st m g =
     \<lparr>blder = (blder st)
        \<lparr>gvk := g,
         config := (case config (blder st) of Some c \<Rightarrow> Some c | None \<Rightarrow> GetConfig m)\<rparr>,
      server = (server st)
        \<lparr>webhooks := webhooks (server st)
           @ expectedMutating E (apiType (blder st)) g (server st)
           @ expectedValidating E (apiType (blder st)) g (server st)\<rparr>,
      events = events st @ [CallGVKForObject]
        @ registrationLog ''Registering a mutating webhook'' g
            (expectedMutating E (apiType (blder st)) g (server st))
        @ registrationLog ''Registering a validating webhook'' g
            (expectedValidating E (apiType (blder st)) g (server st))
        @ conversionLog E m (apiType (blder st)) g\<rparr>"

section \<open>Example inputs\<close>

text \<open>
  The identity of the design's example, objects of a registered type with both
  capabilities, with the defaulting capability only and with neither, an object of a type
  the registry does not know, a manager, and collaborators: no ambient configuration, a
  registry that knows the type \<^verbatim>\<open>Widget\<close> only, handler constructors that give
  handlers, and a convertibility check that fails.
\<close>

definition widgetGVK :: GroupVersionKind where
  "widgetGVK = \<lparr>Group = ''apps.example.com'', Version = ''v1'', Kind = ''Widget''\<rparr>"

definition widget :: Object where
  "widget = \<lparr>typeName = ''Widget'', isDefaulter = True, isValidator = True\<rparr>"

definition defaultingWidget :: Object where
  "defaultingWidget = \<lparr>typeName = ''Widget'', isDefaulter = True, isValidator = False\<rparr>"

definition plainWidget :: Object where
  "plainWidget = \<lparr>typeName = ''Widget'', isDefaulter = False, isValidator = False\<rparr>"

definition gadget :: Object where
  "gadget = \<lparr>typeName = ''Gadget'', isDefaulter = True, isValidator = True\<rparr>"

definition exampleManager :: Manager where
  "exampleManager = \<lparr>GetConfig = Some 1, GetScheme = 0\<rparr>"

definition exampleCollaborators :: Collaborators where
  "exampleCollaborators =
     \<lparr>getConfig = (None, Some ''no configuration''),
      GVKForObject = (\<lambda>obj scheme.
        if map_option typeName obj = Some ''Widget'' then (widgetGVK, None)
        else (\<lparr>Group = [], Version = [], Kind = []\<rparr>, Some ''no kind is registered'')),
      DefaultingWebhookFor = (\<lambda>obj. Some (Webhook 1)),
      ValidatingWebhookFor = (\<lambda>obj. Some (Webhook 2)),
      CheckConvertibility = (\<lambda>scheme obj. Some ''not convertible''),
      unicodeToLower = id\<rparr>"

definition freshState :: "WebhookBuilder \<Rightarrow> state" where
  "freshState b = \<lparr>blder = b, server = \<lparr>webhooks = []\<rparr>, events = []\<rparr>"

section \<open>Facts about the strings and the path table\<close>

lemma Replace_single: "Replace s [d] [e] = map (\<lambda>c. if c = d then e else c) s"
  by (induction s) auto

lemma Replace_dot: "Replace s ''.'' ''-'' = map dotToDash s"
  unfolding Replace_single dotToDash_def ..

lemma split_at_first:
  "d \<notin> set xs \<Longrightarrow> d \<notin> set xs' \<Longrightarrow> xs @ d # ys = xs' @ d # ys' \<Longrightarrow> xs = xs' \<and> ys = ys'"
proof (induction xs arbitrary: xs')
  case Nil
  then show ?case by (cases xs') auto
next
  case (Cons x xs)
  then show ?case by (cases xs') auto
qed

lemma split_at_last:
  assumes "xs @ d # ys = xs' @ d # ys'" "d \<notin> set ys" "d \<notin> set ys'"
  shows "xs = xs' \<and> ys = ys'"
proof -
  have eq: "rev ys @ d # rev xs = rev ys' @ d # rev xs'"
    using arg_cong [OF assms(1), of rev] by simp
  have a: "d \<notin> set (rev ys)" and b: "d \<notin> set (rev ys')" using assms by simp_all
  have "rev ys = rev ys' \<and> rev xs = rev xs'"
    using split_at_first [OF a b eq] .
  then show ?thesis by simp
qed

lemma dotToDash_inj:
  assumes "map dotToDash xs = map dotToDash ys" "dashFree xs" "dashFree ys"
  shows "xs = ys"
proof -
  have "inj_on dotToDash (set xs \<union> set ys)"
    using assms(2,3) by (auto simp: inj_on_def dotToDash_def dashFree_def split: if_splits)
  then show ?thesis using assms(1) by (simp add: inj_on_map_eq_map)
qed

lemma longestMatch_mem: "longestMatch tbl path = Some (p, h) \<Longrightarrow> (p, h) \<in> set tbl"
  by (induction tbl arbitrary: p h) (auto split: option.splits if_splits)

lemma exact_lookup:
  assumes "path \<noteq> []"
  shows "(case mux_Handler s path of (h, p) \<Rightarrow> p = path \<and> h \<noteq> None) \<longleftrightarrow> path \<in> registeredPaths s"
proof (cases "map_of (webhooks s) path")
  case None
  then have nin: "path \<notin> fst ` set (webhooks s)" by (simp add: map_of_eq_None_iff)
  show ?thesis
  proof (cases "longestMatch (webhooks s) path")
    case N2: None
    with None nin assms show ?thesis by (simp add: mux_Handler_def registeredPaths_def)
  next
    case (Some ph)
    obtain p h where ph: "ph = (p, h)" by (cases ph)
    with Some have "(p, h) \<in> set (webhooks s)" by (simp add: longestMatch_mem)
    then have "p \<in> fst ` set (webhooks s)" by force
    with nin have "p \<noteq> path" by blast
    with None Some ph nin show ?thesis by (simp add: mux_Handler_def registeredPaths_def)
  qed
next
  case (Some h)
  then have "(path, h) \<in> set (webhooks s)" by (rule map_of_SomeD)
  then have "path \<in> fst ` set (webhooks s)" by force
  with Some show ?thesis by (simp add: mux_Handler_def registeredPaths_def)
qed

lemma mutate_nonempty: "generateMutatePath U g \<noteq> []"
  by (simp add: generateMutatePath_def)

lemma validate_nonempty: "generateValidatePath U g \<noteq> []"
  by (simp add: generateValidatePath_def)

lemma mutate_neq_validate: "generateMutatePath U g \<noteq> generateValidatePath U' g'"
  by (simp add: generateMutatePath_def generateValidatePath_def)

lemma isAlreadyHandled_bound:
  assumes "mgr (blder st) = Some m" "path \<noteq> []"
  shows "isAlreadyHandled st path = Return (path \<in> registeredPaths (server st))"
  using assms exact_lookup [OF assms(2), of "server st"]
  by (auto simp: isAlreadyHandled_def split: prod.splits)

lemma path_tail_inj:
  assumes eq: "ga @ ''-'' @ va @ ''-'' @ ka = gb @ ''-'' @ vb @ ''-'' @ kb"
    and "dashFree va" "dashFree ka" "dashFree vb" "dashFree kb"
  shows "ga = gb \<and> va = vb \<and> ka = kb"
proof -
  have "(ga @ CHR ''-'' # va) @ CHR ''-'' # ka = (gb @ CHR ''-'' # vb) @ CHR ''-'' # kb"
    using eq by simp
  then have 1: "ga @ CHR ''-'' # va = gb @ CHR ''-'' # vb \<and> ka = kb"
    using assms(3,5) unfolding dashFree_def by (rule split_at_last)
  then have "ga = gb \<and> va = vb"
    using assms(2,4) split_at_last [of ga "CHR ''-''" va gb vb] unfolding dashFree_def by blast
  with 1 show ?thesis by simp
qed

lemma paths_inj:
  assumes "generateMutatePath U a = generateMutatePath U b
           \<or> generateValidatePath U a = generateValidatePath U b"
    and "dashFree (Group a)" "dashFree (Version a)" "dashFree (ToLower U (Kind a))"
    and "dashFree (Group b)" "dashFree (Version b)" "dashFree (ToLower U (Kind b))"
  shows "Group a = Group b \<and> Version a = Version b \<and> ToLower U (Kind a) = ToLower U (Kind b)"
proof -
  have "map dotToDash (Group a) @ ''-'' @ Version a @ ''-'' @ ToLower U (Kind a)
      = map dotToDash (Group b) @ ''-'' @ Version b @ ''-'' @ ToLower U (Kind b)"
    using assms(1) by (auto simp: generateMutatePath_def generateValidatePath_def Replace_dot)
  then have "map dotToDash (Group a) = map dotToDash (Group b) \<and> Version a = Version b
      \<and> ToLower U (Kind a) = ToLower U (Kind b)"
    using assms(3,4,6,7) by (rule path_tail_inj)
  then show ?thesis using dotToDash_inj assms(2,5) by blast
qed

section \<open>Facts about a run of the builder\<close>

text \<open>
  With a bound manager each registration step returns and enters exactly the expected
  entries, and a run of \<open>Complete\<close> whose identity resolution succeeds ends in the
  expected state.
\<close>

lemma registerDefaultingWebhook_bound:
  assumes "mgr (blder st) = Some m"
  shows "registerDefaultingWebhook E st =
    (Return (),
     st\<lparr>server := (server st)\<lparr>webhooks := webhooks (server st)
            @ expectedMutating E (apiType (blder st)) (gvk (blder st)) (server st)\<rparr>,
        events := events st @ registrationLog ''Registering a mutating webhook'' (gvk (blder st))
            (expectedMutating E (apiType (blder st)) (gvk (blder st)) (server st))\<rparr>)"
  using assms
  by (simp add: registerDefaultingWebhook_def expectedMutating_def registrationLog_def
      isAlreadyHandled_bound [OF assms mutate_nonempty] Register_def Let_def
      split: option.splits)

lemma registerValidatingWebhook_bound:
  assumes "mgr (blder st) = Some m"
  shows "registerValidatingWebhook E st =
    (Return (),
     st\<lparr>server := (server st)\<lparr>webhooks := webhooks (server st)
            @ expectedValidating E (apiType (blder st)) (gvk (blder st)) (server st)\<rparr>,
        events := events st @ registrationLog ''Registering a validating webhook'' (gvk (blder st))
            (expectedValidating E (apiType (blder st)) (gvk (blder st)) (server st))\<rparr>)"
  using assms
  by (simp add: registerValidatingWebhook_def expectedValidating_def registrationLog_def
      isAlreadyHandled_bound [OF assms validate_nonempty] Register_def Let_def
      split: option.splits)

lemma expectedValidating_after_mutating:
  "expectedValidating E obj g
     (s\<lparr>webhooks := webhooks s @ expectedMutating E obj' g' s\<rparr>)
   = expectedValidating E obj g s"
  using mutate_neq_validate [of "unicodeToLower E" g' "unicodeToLower E" g]
  by (auto simp: expectedValidating_def expectedMutating_def registeredPaths_def
      split: option.splits)

lemma loadRestConfig_bound:
  assumes "mgr (blder st) = Some m"
  shows "loadRestConfig E st =
    (None, st\<lparr>blder := (blder st)
       \<lparr>config := (case config (blder st) of Some c \<Rightarrow> Some c | None \<Rightarrow> GetConfig m)\<rparr>\<rparr>)"
  using assms by (auto simp: loadRestConfig_def split: option.splits)

lemma registerWebhooks_ok:
  assumes "mgr (blder st) = Some m"
    and "GVKForObject E (apiType (blder st)) (GetScheme m) = (g, None)"
  shows "registerWebhooks E st =
    (Return None,
     \<lparr>blder = (blder st)\<lparr>gvk := g\<rparr>,
      server = (server st)
        \<lparr>webhooks := webhooks (server st)
           @ expectedMutating E (apiType (blder st)) g (server st)
           @ expectedValidating E (apiType (blder st)) g (server st)\<rparr>,
      events = events st @ [CallGVKForObject]
        @ registrationLog ''Registering a mutating webhook'' g
            (expectedMutating E (apiType (blder st)) g (server st))
        @ registrationLog ''Registering a validating webhook'' g
            (expectedValidating E (apiType (blder st)) g (server st))
        @ conversionLog E m (apiType (blder st)) g\<rparr>)"
  using assms
  by (simp add: registerWebhooks_def Let_def registerDefaultingWebhook_bound [where m = m]
      registerValidatingWebhook_bound [where m = m] expectedValidating_after_mutating
      conversionLog_def split: option.splits)

lemma Complete_ok:
  assumes "mgr (blder st) = Some m"
    and "GVKForObject E (apiType (blder st)) (GetScheme m) = (g, None)"
  shows "Complete E st = (Return None, expectedState E st m g)"
  using assms
  by (simp add: Complete_def loadRestConfig_bound [OF assms(1)] registerWebhooks_ok [where m = m and g = g]
      expectedState_def)

lemma Complete_type_error:
  assumes "mgr (blder st) = Some m"
    and "GVKForObject E (apiType (blder st)) (GetScheme m) = (g, Some e)"
  shows "Complete E st =
    (Return (Some (TypeResolutionError e)),
     st\<lparr>blder := (blder st)
          \<lparr>gvk := g,
           config := (case config (blder st) of Some c \<Rightarrow> Some c | None \<Rightarrow> GetConfig m)\<rparr>,
        events := events st @ [CallGVKForObject]\<rparr>)"
  using assms
  by (simp add: Complete_def loadRestConfig_bound [OF assms(1)] registerWebhooks_def Let_def)

lemma Complete_unbound:
  assumes "mgr (blder st) = None"
  shows "Complete E st =
    (if config (blder st) \<noteq> None then (Panic, st)
     else (case snd (getConfig E) of
             Some e \<Rightarrow> Return (Some (ConfigResolutionError e))
           | None \<Rightarrow> Panic,
           st\<lparr>blder := (blder st)\<lparr>config := fst (getConfig E)\<rparr>,
              events := events st @ [CallGetConfig]\<rparr>))"
  using assms
  by (auto simp: Complete_def loadRestConfig_def registerWebhooks_def
      split: option.splits prod.splits)

lemma Complete_success_bound:
  assumes "fst (Complete E st) = Return None"
  obtains m g where "mgr (blder st) = Some m"
    and "GVKForObject E (apiType (blder st)) (GetScheme m) = (g, None)"
proof (cases "mgr (blder st)")
  case None
  with assms show ?thesis
    by (simp add: Complete_unbound split: if_splits option.splits)
next
  case (Some m)
  obtain g eo where gv: "GVKForObject E (apiType (blder st)) (GetScheme m) = (g, eo)"
    by (cases "GVKForObject E (apiType (blder st)) (GetScheme m)")
  show ?thesis
  proof (cases eo)
    case None
    with Some gv that show ?thesis by simp
  next
    case (Some e)
    with \<open>mgr (blder st) = Some m\<close> gv assms show ?thesis
      by (simp add: Complete_type_error)
  qed
qed

lemma expectedMutating_settled:
  "expectedMutating E obj g
     (s\<lparr>webhooks := webhooks s @ expectedMutating E obj g s @ expectedValidating E obj g s\<rparr>) = []"
  by (auto simp: expectedMutating_def registeredPaths_def split: option.splits)

lemma expectedValidating_settled:
  "expectedValidating E obj g
     (s\<lparr>webhooks := webhooks s @ expectedMutating E obj g s @ expectedValidating E obj g s\<rparr>) = []"
  by (auto simp: expectedValidating_def registeredPaths_def split: option.splits)

lemma registration_changes_state:
  "st\<lparr>server := s, events := events st @ [x]\<rparr> \<noteq> st"
proof
  assume "st\<lparr>server := s, events := events st @ [x]\<rparr> = st"
  then have "events (st\<lparr>server := s, events := events st @ [x]\<rparr>) = events st" by simp
  then show False by simp
qed

text \<open>The example inputs, evaluated.\<close>

lemma widget_paths:
  "generateMutatePath id widgetGVK = ''/mutate-apps-example-com-v1-widget''"
  "generateValidatePath id widgetGVK = ''/validate-apps-example-com-v1-widget''"
  by code_simp+

lemmas example_defs = exampleCollaborators_def exampleManager_def widget_def defaultingWidget_def
  plainWidget_def gadget_def freshState_def WebhookManagedBy_def For_def

lemma example_asDefaulter:
  "asDefaulter (Some widget) = Some widget" "asValidator (Some widget) = Some widget"
  "asDefaulter (Some defaultingWidget) = Some defaultingWidget"
  "asValidator (Some defaultingWidget) = None"
  "asDefaulter (Some plainWidget) = None" "asValidator (Some plainWidget) = None"
  by (simp_all add: asDefaulter_def asValidator_def example_defs)

section \<open>Properties of the path naming scheme\<close>

text \<open>
  Claim C1. For every group, version and kind the mutate path is \<^verbatim>\<open>/mutate-\<close>, the
  group with every dot replaced by a dash, a dash, the version as it is, a dash, and the
  kind lowercased; the validate path differs only in its prefix \<^verbatim>\<open>/validate-\<close>.
  The replacement reaches every dot of the group (no dot is left, the length is kept,
  every other byte stays) and touches neither the version nor the kind. On a kind of
  ASCII bytes, lowercasing shifts exactly the bytes \<^verbatim>\<open>A..Z\<close>.
\<close>

theorem path_scheme:
  "generateMutatePath U g =
     ''/mutate-'' @ map dotToDash (Group g) @ ''-'' @ Version g @ ''-'' @ ToLower U (Kind g)
   \<and> generateValidatePath U g =
     ''/validate-'' @ map dotToDash (Group g) @ ''-'' @ Version g @ ''-'' @ ToLower U (Kind g)
   \<and> CHR ''.'' \<notin> set (map dotToDash (Group g))
   \<and> length (map dotToDash (Group g)) = length (Group g)
   \<and> (\<forall>i < length (Group g).
        map dotToDash (Group g) ! i = (if Group g ! i = CHR ''.'' then CHR ''-'' else Group g ! i))
   \<and> (list_all isASCII (Kind g) \<longrightarrow> ToLower U (Kind g) = map toLowerByte (Kind g))"
  by (auto simp: generateMutatePath_def generateValidatePath_def Replace_dot dotToDash_def
        ToLower_def)

text \<open>
  The instance of C1 at a group with three dots and a version that has a dot of its
  own, which stays.
\<close>

theorem path_scheme_witness:
  "generateMutatePath id \<lparr>Group = ''batch.tutorial.kubebuilder.io'', Version = ''v1.beta'',
      Kind = ''CronJob''\<rparr> = ''/mutate-batch-tutorial-kubebuilder-io-v1.beta-cronjob''
   \<and> generateValidatePath id \<lparr>Group = ''batch.tutorial.kubebuilder.io'', Version = ''v1.beta'',
      Kind = ''CronJob''\<rparr> = ''/validate-batch-tutorial-kubebuilder-io-v1.beta-cronjob''
   \<and> list_all isASCII ''CronJob''"
proof -
  let ?g = "\<lparr>Group = ''batch.tutorial.kubebuilder.io'', Version = ''v1.beta'', Kind = ''CronJob''\<rparr>"
  have ascii: "list_all isASCII ''CronJob''" by code_simp
  have low: "map toLowerByte ''CronJob'' = ''cronjob''" by code_simp
  have grp: "map dotToDash ''batch.tutorial.kubebuilder.io'' = ''batch-tutorial-kubebuilder-io''"
    by code_simp
  from path_scheme [of id ?g] ascii low grp show ?thesis by simp
qed

text \<open>
  Claim C7. For every triple the mutate path and the validate path differ (a mutate
  path never equals a validate path, of the same triple or another), and each path is a
  function of group, version and kind alone: two identities with the same three fields
  have the same paths, whatever else they carry.
\<close>

theorem paths_distinct_deterministic:
  fixes g :: "'a GroupVersionKind_scheme" and g' :: "'b GroupVersionKind_scheme"
  shows "generateMutatePath U g \<noteq> generateValidatePath U g
   \<and> generateMutatePath U g \<noteq> generateValidatePath U g'
   \<and> (Group g = Group g' \<and> Version g = Version g' \<and> Kind g = Kind g' \<longrightarrow>
        generateMutatePath U g = generateMutatePath U g'
        \<and> generateValidatePath U g = generateValidatePath U g')"
  by (simp add: generateMutatePath_def generateValidatePath_def)

text \<open>The instance of C7 at two identities that share the triple and differ in an extension.\<close>

theorem paths_distinct_deterministic_witness:
  "generateMutatePath id \<lparr>Group = ''apps.example.com'', Version = ''v1'', Kind = ''Widget''\<rparr>
     \<noteq> generateValidatePath id \<lparr>Group = ''apps.example.com'', Version = ''v1'', Kind = ''Widget''\<rparr>
   \<and> generateMutatePath id \<lparr>Group = ''apps.example.com'', Version = ''v1'', Kind = ''Widget''\<rparr>
     = generateMutatePath id
         \<lparr>Group = ''apps.example.com'', Version = ''v1'', Kind = ''Widget'', \<dots> = (7::nat)\<rparr>
   \<and> generateValidatePath id \<lparr>Group = ''apps.example.com'', Version = ''v1'', Kind = ''Widget''\<rparr>
     = generateValidatePath id
         \<lparr>Group = ''apps.example.com'', Version = ''v1'', Kind = ''Widget'', \<dots> = (7::nat)\<rparr>"
  using paths_distinct_deterministic
    [of id "\<lparr>Group = ''apps.example.com'', Version = ''v1'', Kind = ''Widget''\<rparr>"
        "\<lparr>Group = ''apps.example.com'', Version = ''v1'', Kind = ''Widget'', \<dots> = (7::nat)\<rparr>"]
  by force

text \<open>
  Claim C8 as stated fails: the scheme is not injective. A dash in the group collides
  with a dot, a dash in the version or in the kind moves the borders of the segments,
  and two kinds that differ in letter case give one path.
\<close>

theorem injective_counterexample:
  "generateMutatePath id \<lparr>Group = ''apps.example.com'', Version = ''v1'', Kind = ''Widget''\<rparr>
     = generateMutatePath id \<lparr>Group = ''apps-example.com'', Version = ''v1'', Kind = ''Widget''\<rparr>
   \<and> generateValidatePath id \<lparr>Group = ''apps.example.com'', Version = ''v1'', Kind = ''Widget''\<rparr>
     = generateValidatePath id \<lparr>Group = ''apps-example.com'', Version = ''v1'', Kind = ''Widget''\<rparr>
   \<and> (\<lparr>Group = ''apps.example.com'', Version = ''v1'', Kind = ''Widget''\<rparr> :: GroupVersionKind)
     \<noteq> \<lparr>Group = ''apps-example.com'', Version = ''v1'', Kind = ''Widget''\<rparr>
   \<and> generateMutatePath id \<lparr>Group = ''apps.example'', Version = ''v1'', Kind = ''Widget''\<rparr>
     = generateMutatePath id \<lparr>Group = ''apps'', Version = ''example-v1'', Kind = ''Widget''\<rparr>
   \<and> generateMutatePath id \<lparr>Group = ''apps.v1'', Version = ''widget'', Kind = ''X''\<rparr>
     = generateMutatePath id \<lparr>Group = ''apps'', Version = ''v1'', Kind = ''Widget-X''\<rparr>
   \<and> generateMutatePath id \<lparr>Group = ''apps.example.com'', Version = ''v1'', Kind = ''Widget''\<rparr>
     = generateMutatePath id \<lparr>Group = ''apps.example.com'', Version = ''v1'', Kind = ''widget''\<rparr>"
  by code_simp

text \<open>
  Claim C8, amended. On triples whose group, version and lowercased kind have no dash,
  the scheme is injective up to the letter case of the kind: when two such triples have
  the same mutate path or the same validate path, their groups are equal, their versions
  are equal and their kinds are equal after lowercasing. Group
  \<^verbatim>\<open>apps.example.com\<close>, version \<^verbatim>\<open>v1\<close>, kind \<^verbatim>\<open>Widget\<close> gives
  \<^verbatim>\<open>/mutate-apps-example-com-v1-widget\<close> and
  \<^verbatim>\<open>/validate-apps-example-com-v1-widget\<close>.
\<close>

theorem injective_dashFree:
  "(dashFree (Group a) \<and> dashFree (Version a) \<and> dashFree (ToLower U (Kind a))
    \<and> dashFree (Group b) \<and> dashFree (Version b) \<and> dashFree (ToLower U (Kind b))
    \<and> (generateMutatePath U a = generateMutatePath U b
        \<or> generateValidatePath U a = generateValidatePath U b)
    \<longrightarrow> Group a = Group b \<and> Version a = Version b \<and> ToLower U (Kind a) = ToLower U (Kind b))
   \<and> generateMutatePath U \<lparr>Group = ''apps.example.com'', Version = ''v1'', Kind = ''Widget''\<rparr>
      = ''/mutate-apps-example-com-v1-widget''
   \<and> generateValidatePath U \<lparr>Group = ''apps.example.com'', Version = ''v1'', Kind = ''Widget''\<rparr>
      = ''/validate-apps-example-com-v1-widget''"
proof (intro conjI impI)
  assume h: "dashFree (Group a) \<and> dashFree (Version a) \<and> dashFree (ToLower U (Kind a))
    \<and> dashFree (Group b) \<and> dashFree (Version b) \<and> dashFree (ToLower U (Kind b))
    \<and> (generateMutatePath U a = generateMutatePath U b
        \<or> generateValidatePath U a = generateValidatePath U b)"
  then have r: "Group a = Group b \<and> Version a = Version b \<and> ToLower U (Kind a) = ToLower U (Kind b)"
    using paths_inj [of U a b] by blast
  from r show "Group a = Group b" by simp
  from r show "Version a = Version b" by simp
  from r show "ToLower U (Kind a) = ToLower U (Kind b)" by simp
next
  show "generateMutatePath U \<lparr>Group = ''apps.example.com'', Version = ''v1'', Kind = ''Widget''\<rparr>
      = ''/mutate-apps-example-com-v1-widget''" by code_simp
next
  show "generateValidatePath U \<lparr>Group = ''apps.example.com'', Version = ''v1'', Kind = ''Widget''\<rparr>
      = ''/validate-apps-example-com-v1-widget''" by code_simp
qed

text \<open>
  The amended C8 at dash-free triples that differ in the group or in the version: their
  paths differ.
\<close>

theorem injective_dashFree_witness:
  "generateMutatePath id \<lparr>Group = ''apps.example.com'', Version = ''v1'', Kind = ''Widget''\<rparr>
     \<noteq> generateMutatePath id \<lparr>Group = ''apps.example.org'', Version = ''v1'', Kind = ''Widget''\<rparr>
   \<and> generateMutatePath id \<lparr>Group = ''apps.example.com'', Version = ''v1'', Kind = ''Widget''\<rparr>
     \<noteq> generateMutatePath id \<lparr>Group = ''apps.example.com'', Version = ''v2'', Kind = ''Widget''\<rparr>
   \<and> dashFree ''apps.example.com'' \<and> dashFree ''apps.example.org'' \<and> dashFree ''v1''
   \<and> dashFree ''v2'' \<and> dashFree (ToLower id ''Widget'')"
proof -
  let ?a = "\<lparr>Group = ''apps.example.com'', Version = ''v1'', Kind = ''Widget''\<rparr>"
  let ?b = "\<lparr>Group = ''apps.example.org'', Version = ''v1'', Kind = ''Widget''\<rparr>"
  let ?c = "\<lparr>Group = ''apps.example.com'', Version = ''v2'', Kind = ''Widget''\<rparr>"
  have d: "dashFree ''apps.example.com''" "dashFree ''apps.example.org''" "dashFree ''v1''"
    "dashFree ''v2''" "dashFree (ToLower id ''Widget'')"
    by code_simp+
  have "generateMutatePath id ?a \<noteq> generateMutatePath id ?b"
    using injective_dashFree [of ?a id ?b] d by auto
  moreover have "generateMutatePath id ?a \<noteq> generateMutatePath id ?c"
    using injective_dashFree [of ?a id ?c] d by auto
  ultimately show ?thesis using d by simp
qed

section \<open>Properties of the terminal operation\<close>

text \<open>
  Claim C2. \<open>Complete\<close> resolves the config in this order: a config that is set is
  kept as it is; otherwise the config of the bound manager is taken; otherwise the ambient
  loader is called, and only then. \<open>Complete\<close> returns a config resolution error
  exactly when no config is set, no manager is bound and the ambient loader fails; it is
  then the loader's error, the path table and the identity of the builder are as before,
  and the only event of the run is the call of the loader: no registry lookup, no
  registration.
\<close>

theorem config_resolution:
  "config (blder (snd (Complete E st))) =
     (case config (blder st) of
        Some c \<Rightarrow> Some c
      | None \<Rightarrow> (case mgr (blder st) of Some m \<Rightarrow> GetConfig m | None \<Rightarrow> fst (getConfig E)))
   \<and> events (snd (loadRestConfig E st)) =
       events st @ (if config (blder st) = None \<and> mgr (blder st) = None then [CallGetConfig] else [])
   \<and> ((\<exists>e. fst (Complete E st) = Return (Some (ConfigResolutionError e)))
        \<longleftrightarrow> config (blder st) = None \<and> mgr (blder st) = None \<and> snd (getConfig E) \<noteq> None)
   \<and> (\<forall>e. fst (Complete E st) = Return (Some (ConfigResolutionError e)) \<longrightarrow>
          snd (getConfig E) = Some e
          \<and> server (snd (Complete E st)) = server st
          \<and> gvk (blder (snd (Complete E st))) = gvk (blder st)
          \<and> events (snd (Complete E st)) = events st @ [CallGetConfig])"
proof (cases "mgr (blder st)")
  case None
  then show ?thesis
    by (auto simp: Complete_unbound loadRestConfig_def split: option.splits prod.splits)
next
  case (Some m)
  obtain g eo where gv: "GVKForObject E (apiType (blder st)) (GetScheme m) = (g, eo)"
    by (cases "GVKForObject E (apiType (blder st)) (GetScheme m)")
  show ?thesis
  proof (cases eo)
    case None
    with Some gv show ?thesis
      by (auto simp: Complete_ok expectedState_def loadRestConfig_def split: option.splits)
  next
    case E: (Some e)
    with Some gv show ?thesis
      by (auto simp: Complete_type_error loadRestConfig_def split: option.splits)
  qed
qed

text \<open>
  C2 at a builder with a config set, at one with a manager only, and at one with neither
  while the ambient loader fails.
\<close>

theorem config_resolution_witness:
  "config (blder (snd (Complete exampleCollaborators
      (freshState ((For (Some widget) (WebhookManagedBy (Some exampleManager)))\<lparr>config := Some 7\<rparr>)))))
     = Some 7
   \<and> config (blder (snd (Complete exampleCollaborators
      (freshState (For (Some widget) (WebhookManagedBy (Some exampleManager)))))))
     = Some 1
   \<and> fst (Complete exampleCollaborators (freshState (For (Some widget) (WebhookManagedBy None))))
     = Return (Some (ConfigResolutionError ''no configuration''))
   \<and> server (snd (Complete exampleCollaborators
        (freshState (For (Some widget) (WebhookManagedBy None)))))
     = \<lparr>webhooks = []\<rparr>
   \<and> events (snd (Complete exampleCollaborators
        (freshState (For (Some widget) (WebhookManagedBy None)))))
     = [CallGetConfig]"
  using
    config_resolution [of exampleCollaborators
      "freshState ((For (Some widget) (WebhookManagedBy (Some exampleManager)))\<lparr>config := Some 7\<rparr>)"]
    config_resolution [of exampleCollaborators
      "freshState (For (Some widget) (WebhookManagedBy (Some exampleManager)))"]
    config_resolution [of exampleCollaborators
      "freshState (For (Some widget) (WebhookManagedBy None))"]
  by (auto simp: example_defs)

text \<open>
  Claim C3. When a manager is bound and its registry does not know the target type (the
  lookup returns an error), \<open>Complete\<close> returns that error as the type resolution
  error, the path table is as before, and the only event of the run is the lookup.
\<close>

theorem unknown_type:
  "mgr (blder st) = Some m \<and> GVKForObject E (apiType (blder st)) (GetScheme m) = (g, Some e)
   \<longrightarrow> fst (Complete E st) = Return (Some (TypeResolutionError e))
       \<and> server (snd (Complete E st)) = server st
       \<and> events (snd (Complete E st)) = events st @ [CallGVKForObject]"
  by (simp add: Complete_type_error)

text \<open>C3 at an object of a type the example registry does not know.\<close>

theorem unknown_type_witness:
  "mgr (blder (freshState (For (Some gadget) (WebhookManagedBy (Some exampleManager)))))
     = Some exampleManager
   \<and> GVKForObject exampleCollaborators (Some gadget) (GetScheme exampleManager)
     = (\<lparr>Group = [], Version = [], Kind = []\<rparr>, Some ''no kind is registered'')
   \<and> fst (Complete exampleCollaborators
        (freshState (For (Some gadget) (WebhookManagedBy (Some exampleManager)))))
     = Return (Some (TypeResolutionError ''no kind is registered''))
   \<and> server (snd (Complete exampleCollaborators
        (freshState (For (Some gadget) (WebhookManagedBy (Some exampleManager))))))
     = \<lparr>webhooks = []\<rparr>
   \<and> events (snd (Complete exampleCollaborators
        (freshState (For (Some gadget) (WebhookManagedBy (Some exampleManager))))))
     = [CallGVKForObject]"
  using unknown_type [of "freshState (For (Some gadget) (WebhookManagedBy (Some exampleManager)))"
      exampleManager exampleCollaborators "\<lparr>Group = [], Version = [], Kind = []\<rparr>"
      "''no kind is registered''"]
  by (simp add: example_defs)

text \<open>
  Claim C4. When a manager is bound and the identity resolves, a failing convertibility
  check does not change the result: \<open>Complete\<close> returns the nil error, and the path
  table and the builder are those of the same run with a passing check, so every
  applicable handler is registered. The only difference is the log line of the failure,
  which carries the resolved identity.
\<close>

theorem conversion_check_advisory:
  "mgr (blder st) = Some m \<and> GVKForObject E (apiType (blder st)) (GetScheme m) = (g, None)
   \<and> CheckConvertibility E (GetScheme m) (apiType (blder st)) = Some e
   \<longrightarrow> fst (Complete E st) = Return None
       \<and> fst (Complete (E\<lparr>CheckConvertibility := \<lambda>s obj. None\<rparr>) st) = Return None
       \<and> server (snd (Complete E st))
           = server (snd (Complete (E\<lparr>CheckConvertibility := \<lambda>s obj. None\<rparr>) st))
       \<and> blder (snd (Complete E st))
           = blder (snd (Complete (E\<lparr>CheckConvertibility := \<lambda>s obj. None\<rparr>) st))
       \<and> events (snd (Complete E st))
           = events (snd (Complete (E\<lparr>CheckConvertibility := \<lambda>s obj. None\<rparr>) st))
             @ [LogError e ''conversion check failed'' g]
       \<and> webhooks (server (snd (Complete E st)))
           = webhooks (server st) @ expectedMutating E (apiType (blder st)) g (server st)
             @ expectedValidating E (apiType (blder st)) g (server st)"
proof (intro impI)
  assume h: "mgr (blder st) = Some m \<and> GVKForObject E (apiType (blder st)) (GetScheme m) = (g, None)
   \<and> CheckConvertibility E (GetScheme m) (apiType (blder st)) = Some e"
  let ?E = "E\<lparr>CheckConvertibility := \<lambda>s obj. None\<rparr>"
  have 1: "Complete E st = (Return None, expectedState E st m g)"
    using h by (simp add: Complete_ok)
  have 2: "Complete ?E st = (Return None, expectedState ?E st m g)"
    using h by (simp add: Complete_ok)
  have 3: "expectedMutating ?E = expectedMutating E" "expectedValidating ?E = expectedValidating E"
    by (simp_all add: expectedMutating_def expectedValidating_def fun_eq_iff split: option.splits)
  show "fst (Complete E st) = Return None
       \<and> fst (Complete ?E st) = Return None
       \<and> server (snd (Complete E st)) = server (snd (Complete ?E st))
       \<and> blder (snd (Complete E st)) = blder (snd (Complete ?E st))
       \<and> events (snd (Complete E st))
           = events (snd (Complete ?E st)) @ [LogError e ''conversion check failed'' g]
       \<and> webhooks (server (snd (Complete E st)))
           = webhooks (server st) @ expectedMutating E (apiType (blder st)) g (server st)
             @ expectedValidating E (apiType (blder st)) g (server st)"
    using h by (simp add: 1 2 3 expectedState_def conversionLog_def)
qed

text \<open>
  C4 at the object with both capabilities and a failing check: both handlers are
  registered.
\<close>

theorem conversion_check_advisory_witness:
  "mgr (blder (freshState (For (Some widget) (WebhookManagedBy (Some exampleManager)))))
     = Some exampleManager
   \<and> GVKForObject exampleCollaborators (Some widget) (GetScheme exampleManager) = (widgetGVK, None)
   \<and> CheckConvertibility exampleCollaborators (GetScheme exampleManager) (Some widget)
     = Some ''not convertible''
   \<and> fst (Complete exampleCollaborators
        (freshState (For (Some widget) (WebhookManagedBy (Some exampleManager)))))
     = Return None
   \<and> webhooks (server (snd (Complete exampleCollaborators
        (freshState (For (Some widget) (WebhookManagedBy (Some exampleManager)))))))
     = [(''/mutate-apps-example-com-v1-widget'', Webhook 1),
        (''/validate-apps-example-com-v1-widget'', Webhook 2)]"
proof -
  let ?st = "freshState (For (Some widget) (WebhookManagedBy (Some exampleManager)))"
  have st: "mgr (blder ?st) = Some exampleManager" "apiType (blder ?st) = Some widget"
    "server ?st = \<lparr>webhooks = []\<rparr>"
    by (simp_all add: example_defs)
  have E: "GVKForObject exampleCollaborators (Some widget) (GetScheme exampleManager)
      = (widgetGVK, None)"
    "CheckConvertibility exampleCollaborators (GetScheme exampleManager) (Some widget)
      = Some ''not convertible''"
    by (simp_all add: example_defs)
  have x: "expectedMutating exampleCollaborators (Some widget) widgetGVK \<lparr>webhooks = []\<rparr>
      = [(''/mutate-apps-example-com-v1-widget'', Webhook 1)]"
    "expectedValidating exampleCollaborators (Some widget) widgetGVK \<lparr>webhooks = []\<rparr>
      = [(''/validate-apps-example-com-v1-widget'', Webhook 2)]"
    by (simp_all add: expectedMutating_def expectedValidating_def example_asDefaulter
        registeredPaths_def exampleCollaborators_def widget_paths)
  have h: "mgr (blder ?st) = Some exampleManager
    \<and> GVKForObject exampleCollaborators (apiType (blder ?st)) (GetScheme exampleManager)
        = (widgetGVK, None)
    \<and> CheckConvertibility exampleCollaborators (GetScheme exampleManager) (apiType (blder ?st))
        = Some ''not convertible''"
    using st E by simp
  note t = conversion_check_advisory [of ?st exampleManager exampleCollaborators widgetGVK
      "''not convertible''", THEN mp, OF h]
  from t have "fst (Complete exampleCollaborators ?st) = Return None" by blast
  moreover from t have "webhooks (server (snd (Complete exampleCollaborators ?st)))
       = webhooks (server ?st)
         @ expectedMutating exampleCollaborators (apiType (blder ?st)) widgetGVK (server ?st)
         @ expectedValidating exampleCollaborators (apiType (blder ?st)) widgetGVK (server ?st)"
    by blast
  ultimately show ?thesis using st E x by simp
qed

text \<open>
  Claim C5. In a registration attempt, mutating or validating (the capability is
  present, its constructor gave a handler, a manager is bound), the step returns without
  error, and it leaves the state as it is, log included, exactly when the lookup of the
  computed path gives a handler and a matched path equal to the computed path. In every
  other case, a prefix match among them, the handler is registered at the computed path
  and the registration is logged.
\<close>

theorem duplicate_check:
  "mgr (blder st) = Some m \<longrightarrow>
     (asDefaulter (apiType (blder st)) = Some d \<and> DefaultingWebhookFor E d = Some mwh
      \<and> mux_Handler (server st) (generateMutatePath (unicodeToLower E) (gvk (blder st))) = (h, p)
      \<longrightarrow> fst (registerDefaultingWebhook E st) = Return ()
          \<and> (snd (registerDefaultingWebhook E st) = st
               \<longleftrightarrow> h \<noteq> None \<and> p = generateMutatePath (unicodeToLower E) (gvk (blder st)))
          \<and> (\<not> (h \<noteq> None \<and> p = generateMutatePath (unicodeToLower E) (gvk (blder st))) \<longrightarrow>
               snd (registerDefaultingWebhook E st) =
                 st\<lparr>server := Register (generateMutatePath (unicodeToLower E) (gvk (blder st)))
                                mwh (server st),
                    events := events st @
                      [LogInfo ''Registering a mutating webhook'' (gvk (blder st))
                         (generateMutatePath (unicodeToLower E) (gvk (blder st)))]\<rparr>))
   \<and> (asValidator (apiType (blder st)) = Some v \<and> ValidatingWebhookFor E v = Some vwh
      \<and> mux_Handler (server st) (generateValidatePath (unicodeToLower E) (gvk (blder st))) = (h', p')
      \<longrightarrow> fst (registerValidatingWebhook E st) = Return ()
          \<and> (snd (registerValidatingWebhook E st) = st
               \<longleftrightarrow> h' \<noteq> None \<and> p' = generateValidatePath (unicodeToLower E) (gvk (blder st)))
          \<and> (\<not> (h' \<noteq> None \<and> p' = generateValidatePath (unicodeToLower E) (gvk (blder st))) \<longrightarrow>
               snd (registerValidatingWebhook E st) =
                 st\<lparr>server := Register (generateValidatePath (unicodeToLower E) (gvk (blder st)))
                                vwh (server st),
                    events := events st @
                      [LogInfo ''Registering a validating webhook'' (gvk (blder st))
                         (generateValidatePath (unicodeToLower E) (gvk (blder st)))]\<rparr>))"
  by (auto simp: registerDefaultingWebhook_def registerValidatingWebhook_def isAlreadyHandled_def
      Let_def registration_changes_state)

text \<open>
  C5 at a table whose only entry is the subtree \<^verbatim>\<open>/\<close>, a prefix of every path: the
  lookup matches \<^verbatim>\<open>/\<close> and both handlers are registered; and at a table with both
  paths: both steps leave the state as it is.
\<close>

theorem duplicate_check_witness:
  "mux_Handler \<lparr>webhooks = [(''/'', Webhook 0)]\<rparr> ''/mutate-apps-example-com-v1-widget''
     = (Some (Webhook 0), ''/'')
   \<and> mux_Handler \<lparr>webhooks = [(''/'', Webhook 0)]\<rparr> ''/validate-apps-example-com-v1-widget''
     = (Some (Webhook 0), ''/'')
   \<and> webhooks (server (snd (registerDefaultingWebhook exampleCollaborators
        \<lparr>blder = (For (Some widget) (WebhookManagedBy (Some exampleManager)))\<lparr>gvk := widgetGVK\<rparr>,
         server = \<lparr>webhooks = [(''/'', Webhook 0)]\<rparr>, events = []\<rparr>)))
     = [(''/'', Webhook 0), (''/mutate-apps-example-com-v1-widget'', Webhook 1)]
   \<and> webhooks (server (snd (registerValidatingWebhook exampleCollaborators
        \<lparr>blder = (For (Some widget) (WebhookManagedBy (Some exampleManager)))\<lparr>gvk := widgetGVK\<rparr>,
         server = \<lparr>webhooks = [(''/'', Webhook 0)]\<rparr>, events = []\<rparr>)))
     = [(''/'', Webhook 0), (''/validate-apps-example-com-v1-widget'', Webhook 2)]
   \<and> mux_Handler
        \<lparr>webhooks = [(''/mutate-apps-example-com-v1-widget'', Webhook 8),
                     (''/validate-apps-example-com-v1-widget'', Webhook 9)]\<rparr>
        ''/mutate-apps-example-com-v1-widget''
     = (Some (Webhook 8), ''/mutate-apps-example-com-v1-widget'')
   \<and> mux_Handler
        \<lparr>webhooks = [(''/mutate-apps-example-com-v1-widget'', Webhook 8),
                     (''/validate-apps-example-com-v1-widget'', Webhook 9)]\<rparr>
        ''/validate-apps-example-com-v1-widget''
     = (Some (Webhook 9), ''/validate-apps-example-com-v1-widget'')
   \<and> snd (registerDefaultingWebhook exampleCollaborators
        \<lparr>blder = (For (Some widget) (WebhookManagedBy (Some exampleManager)))\<lparr>gvk := widgetGVK\<rparr>,
         server = \<lparr>webhooks = [(''/mutate-apps-example-com-v1-widget'', Webhook 8),
                     (''/validate-apps-example-com-v1-widget'', Webhook 9)]\<rparr>, events = []\<rparr>)
     = \<lparr>blder = (For (Some widget) (WebhookManagedBy (Some exampleManager)))\<lparr>gvk := widgetGVK\<rparr>,
         server = \<lparr>webhooks = [(''/mutate-apps-example-com-v1-widget'', Webhook 8),
                     (''/validate-apps-example-com-v1-widget'', Webhook 9)]\<rparr>, events = []\<rparr>
   \<and> snd (registerValidatingWebhook exampleCollaborators
        \<lparr>blder = (For (Some widget) (WebhookManagedBy (Some exampleManager)))\<lparr>gvk := widgetGVK\<rparr>,
         server = \<lparr>webhooks = [(''/mutate-apps-example-com-v1-widget'', Webhook 8),
                     (''/validate-apps-example-com-v1-widget'', Webhook 9)]\<rparr>, events = []\<rparr>)
     = \<lparr>blder = (For (Some widget) (WebhookManagedBy (Some exampleManager)))\<lparr>gvk := widgetGVK\<rparr>,
         server = \<lparr>webhooks = [(''/mutate-apps-example-com-v1-widget'', Webhook 8),
                     (''/validate-apps-example-com-v1-widget'', Webhook 9)]\<rparr>, events = []\<rparr>"
proof -
  let ?b = "(For (Some widget) (WebhookManagedBy (Some exampleManager)))\<lparr>gvk := widgetGVK\<rparr>"
  let ?pre = "\<lparr>blder = ?b, server = \<lparr>webhooks = [(''/'', Webhook 0)]\<rparr>, events = []\<rparr>"
  let ?dup = "\<lparr>blder = ?b,
    server = \<lparr>webhooks = [(''/mutate-apps-example-com-v1-widget'', Webhook 8),
                          (''/validate-apps-example-com-v1-widget'', Webhook 9)]\<rparr>, events = []\<rparr>"
  have m1: "mux_Handler \<lparr>webhooks = [(''/'', Webhook 0)]\<rparr> ''/mutate-apps-example-com-v1-widget''
     = (Some (Webhook 0), ''/'')"
    and m2: "mux_Handler \<lparr>webhooks = [(''/'', Webhook 0)]\<rparr> ''/validate-apps-example-com-v1-widget''
     = (Some (Webhook 0), ''/'')"
    and m3: "mux_Handler
        \<lparr>webhooks = [(''/mutate-apps-example-com-v1-widget'', Webhook 8),
                     (''/validate-apps-example-com-v1-widget'', Webhook 9)]\<rparr>
        ''/mutate-apps-example-com-v1-widget''
     = (Some (Webhook 8), ''/mutate-apps-example-com-v1-widget'')"
    and m4: "mux_Handler
        \<lparr>webhooks = [(''/mutate-apps-example-com-v1-widget'', Webhook 8),
                     (''/validate-apps-example-com-v1-widget'', Webhook 9)]\<rparr>
        ''/validate-apps-example-com-v1-widget''
     = (Some (Webhook 9), ''/validate-apps-example-com-v1-widget'')"
    by (simp_all add: mux_Handler_def isSubtree_def)
  have pre: "mgr (blder ?pre) = Some exampleManager" "apiType (blder ?pre) = Some widget"
    "gvk (blder ?pre) = widgetGVK" "server ?pre = \<lparr>webhooks = [(''/'', Webhook 0)]\<rparr>"
    "events ?pre = []"
    by (simp_all add: example_defs)
  have dup: "mgr (blder ?dup) = Some exampleManager" "apiType (blder ?dup) = Some widget"
    "gvk (blder ?dup) = widgetGVK"
    "server ?dup = \<lparr>webhooks = [(''/mutate-apps-example-com-v1-widget'', Webhook 8),
                          (''/validate-apps-example-com-v1-widget'', Webhook 9)]\<rparr>"
    by (simp_all add: example_defs)
  have E: "unicodeToLower exampleCollaborators = id"
    "DefaultingWebhookFor exampleCollaborators widget = Some (Webhook 1)"
    "ValidatingWebhookFor exampleCollaborators widget = Some (Webhook 2)"
    by (simp_all add: exampleCollaborators_def)
  note t1 = duplicate_check [of ?pre exampleManager widget exampleCollaborators "Webhook 1"
      "Some (Webhook 0)" "''/''" widget "Webhook 2" "Some (Webhook 0)" "''/''"]
  note t2 = duplicate_check [of ?dup exampleManager widget exampleCollaborators "Webhook 1"
      "Some (Webhook 8)" "''/mutate-apps-example-com-v1-widget''" widget "Webhook 2"
      "Some (Webhook 9)" "''/validate-apps-example-com-v1-widget''"]
  have r1: "webhooks (server (snd (registerDefaultingWebhook exampleCollaborators ?pre)))
     = [(''/'', Webhook 0), (''/mutate-apps-example-com-v1-widget'', Webhook 1)]"
    and r2: "webhooks (server (snd (registerValidatingWebhook exampleCollaborators ?pre)))
     = [(''/'', Webhook 0), (''/validate-apps-example-com-v1-widget'', Webhook 2)]"
    using t1 unfolding pre E example_asDefaulter widget_paths m1 m2
    by (simp_all add: Register_def)
  have r3: "snd (registerDefaultingWebhook exampleCollaborators ?dup) = ?dup"
    and r4: "snd (registerValidatingWebhook exampleCollaborators ?dup) = ?dup"
    using t2 unfolding dup E example_asDefaulter widget_paths m3 m4
    by simp_all
  from m1 m2 m3 m4 r1 r2 r3 r4 show ?thesis by blast
qed

text \<open>
  Claim C6. When a manager is bound and the identity resolves to \<open>g\<close>,
  \<open>Complete\<close> succeeds and the path table gains the expected mutating entries
  followed by the expected validating entries, each decided by its own capability test.
  A type with neither capability leaves the table as it is. A type with the defaulting
  capability only, whose handler is not null and whose mutate path is free, gains one
  entry, at the mutate path, and a free validate path stays free. A type with both
  capabilities, handlers not null and both paths free, gains two entries at two distinct
  paths. Where every constructor that is called gives the null handler, the table stays
  as it is and \<open>Complete\<close> still succeeds.
\<close>

theorem capability_dispatch:
  "mgr (blder st) = Some m \<and> GVKForObject E (apiType (blder st)) (GetScheme m) = (g, None) \<longrightarrow>
     fst (Complete E st) = Return None
     \<and> webhooks (server (snd (Complete E st))) =
         webhooks (server st) @ expectedMutating E (apiType (blder st)) g (server st)
           @ expectedValidating E (apiType (blder st)) g (server st)
     \<and> (asDefaulter (apiType (blder st)) = None \<and> asValidator (apiType (blder st)) = None \<longrightarrow>
          server (snd (Complete E st)) = server st)
     \<and> (asDefaulter (apiType (blder st)) = Some d \<and> DefaultingWebhookFor E d = Some mwh
        \<and> asValidator (apiType (blder st)) = None
        \<and> generateMutatePath (unicodeToLower E) g \<notin> registeredPaths (server st) \<longrightarrow>
          webhooks (server (snd (Complete E st))) =
            webhooks (server st) @ [(generateMutatePath (unicodeToLower E) g, mwh)]
          \<and> (generateValidatePath (unicodeToLower E) g \<notin> registeredPaths (server st) \<longrightarrow>
               generateValidatePath (unicodeToLower E) g
                 \<notin> registeredPaths (server (snd (Complete E st)))))
     \<and> (asDefaulter (apiType (blder st)) = Some d \<and> DefaultingWebhookFor E d = Some mwh
        \<and> asValidator (apiType (blder st)) = Some v \<and> ValidatingWebhookFor E v = Some vwh
        \<and> generateMutatePath (unicodeToLower E) g \<notin> registeredPaths (server st)
        \<and> generateValidatePath (unicodeToLower E) g \<notin> registeredPaths (server st) \<longrightarrow>
          webhooks (server (snd (Complete E st))) =
            webhooks (server st) @ [(generateMutatePath (unicodeToLower E) g, mwh),
                                    (generateValidatePath (unicodeToLower E) g, vwh)]
          \<and> generateMutatePath (unicodeToLower E) g \<noteq> generateValidatePath (unicodeToLower E) g)
     \<and> ((asDefaulter (apiType (blder st)) = None
          \<or> (asDefaulter (apiType (blder st)) = Some d \<and> DefaultingWebhookFor E d = None))
        \<and> (asValidator (apiType (blder st)) = None
          \<or> (asValidator (apiType (blder st)) = Some v \<and> ValidatingWebhookFor E v = None)) \<longrightarrow>
          server (snd (Complete E st)) = server st)"
proof
  assume h: "mgr (blder st) = Some m \<and> GVKForObject E (apiType (blder st)) (GetScheme m) = (g, None)"
  then have c: "Complete E st = (Return None, expectedState E st m g)"
    by (simp add: Complete_ok)
  have neq: "generateMutatePath (unicodeToLower E) g \<noteq> generateValidatePath (unicodeToLower E) g"
    by (rule mutate_neq_validate)
  show "fst (Complete E st) = Return None
     \<and> webhooks (server (snd (Complete E st))) =
         webhooks (server st) @ expectedMutating E (apiType (blder st)) g (server st)
           @ expectedValidating E (apiType (blder st)) g (server st)
     \<and> (asDefaulter (apiType (blder st)) = None \<and> asValidator (apiType (blder st)) = None \<longrightarrow>
          server (snd (Complete E st)) = server st)
     \<and> (asDefaulter (apiType (blder st)) = Some d \<and> DefaultingWebhookFor E d = Some mwh
        \<and> asValidator (apiType (blder st)) = None
        \<and> generateMutatePath (unicodeToLower E) g \<notin> registeredPaths (server st) \<longrightarrow>
          webhooks (server (snd (Complete E st))) =
            webhooks (server st) @ [(generateMutatePath (unicodeToLower E) g, mwh)]
          \<and> (generateValidatePath (unicodeToLower E) g \<notin> registeredPaths (server st) \<longrightarrow>
               generateValidatePath (unicodeToLower E) g
                 \<notin> registeredPaths (server (snd (Complete E st)))))
     \<and> (asDefaulter (apiType (blder st)) = Some d \<and> DefaultingWebhookFor E d = Some mwh
        \<and> asValidator (apiType (blder st)) = Some v \<and> ValidatingWebhookFor E v = Some vwh
        \<and> generateMutatePath (unicodeToLower E) g \<notin> registeredPaths (server st)
        \<and> generateValidatePath (unicodeToLower E) g \<notin> registeredPaths (server st) \<longrightarrow>
          webhooks (server (snd (Complete E st))) =
            webhooks (server st) @ [(generateMutatePath (unicodeToLower E) g, mwh),
                                    (generateValidatePath (unicodeToLower E) g, vwh)]
          \<and> generateMutatePath (unicodeToLower E) g \<noteq> generateValidatePath (unicodeToLower E) g)
     \<and> ((asDefaulter (apiType (blder st)) = None
          \<or> (asDefaulter (apiType (blder st)) = Some d \<and> DefaultingWebhookFor E d = None))
        \<and> (asValidator (apiType (blder st)) = None
          \<or> (asValidator (apiType (blder st)) = Some v \<and> ValidatingWebhookFor E v = None)) \<longrightarrow>
          server (snd (Complete E st)) = server st)"
    using neq
    by (auto simp: c expectedState_def expectedMutating_def expectedValidating_def
        registeredPaths_def)
qed

text \<open>
  C6 at objects with neither capability, with the defaulting capability only and with
  both, and at constructors that give the null handler.
\<close>

theorem capability_dispatch_witness:
  "fst (Complete exampleCollaborators
        (freshState (For (Some plainWidget) (WebhookManagedBy (Some exampleManager))))) = Return None
   \<and> webhooks (server (snd (Complete exampleCollaborators
        (freshState (For (Some plainWidget) (WebhookManagedBy (Some exampleManager))))))) = []
   \<and> webhooks (server (snd (Complete exampleCollaborators
        (freshState (For (Some defaultingWidget) (WebhookManagedBy (Some exampleManager)))))))
      = [(''/mutate-apps-example-com-v1-widget'', Webhook 1)]
   \<and> webhooks (server (snd (Complete exampleCollaborators
        (freshState (For (Some widget) (WebhookManagedBy (Some exampleManager)))))))
      = [(''/mutate-apps-example-com-v1-widget'', Webhook 1),
         (''/validate-apps-example-com-v1-widget'', Webhook 2)]
   \<and> fst (Complete
        (exampleCollaborators\<lparr>DefaultingWebhookFor := \<lambda>obj. None,
                               ValidatingWebhookFor := \<lambda>obj. None\<rparr>)
        (freshState (For (Some widget) (WebhookManagedBy (Some exampleManager))))) = Return None
   \<and> webhooks (server (snd (Complete
        (exampleCollaborators\<lparr>DefaultingWebhookFor := \<lambda>obj. None,
                               ValidatingWebhookFor := \<lambda>obj. None\<rparr>)
        (freshState (For (Some widget) (WebhookManagedBy (Some exampleManager))))))) = []"
proof -
  let ?E = exampleCollaborators
  let ?N = "exampleCollaborators\<lparr>DefaultingWebhookFor := \<lambda>obj. None,
                                   ValidatingWebhookFor := \<lambda>obj. None\<rparr>"
  let ?p = "freshState (For (Some plainWidget) (WebhookManagedBy (Some exampleManager)))"
  let ?d = "freshState (For (Some defaultingWidget) (WebhookManagedBy (Some exampleManager)))"
  let ?w = "freshState (For (Some widget) (WebhookManagedBy (Some exampleManager)))"
  have E: "unicodeToLower ?E = id" "unicodeToLower ?N = id"
    "DefaultingWebhookFor ?E defaultingWidget = Some (Webhook 1)"
    "DefaultingWebhookFor ?E widget = Some (Webhook 1)"
    "ValidatingWebhookFor ?E widget = Some (Webhook 2)"
    "DefaultingWebhookFor ?N widget = None" "ValidatingWebhookFor ?N widget = None"
    by (simp_all add: exampleCollaborators_def)
  have hp: "mgr (blder ?p) = Some exampleManager
      \<and> GVKForObject ?E (apiType (blder ?p)) (GetScheme exampleManager) = (widgetGVK, None)"
    and hd: "mgr (blder ?d) = Some exampleManager
      \<and> GVKForObject ?E (apiType (blder ?d)) (GetScheme exampleManager) = (widgetGVK, None)"
    and hw: "mgr (blder ?w) = Some exampleManager
      \<and> GVKForObject ?E (apiType (blder ?w)) (GetScheme exampleManager) = (widgetGVK, None)"
    and hn: "mgr (blder ?w) = Some exampleManager
      \<and> GVKForObject ?N (apiType (blder ?w)) (GetScheme exampleManager) = (widgetGVK, None)"
    by (simp_all add: example_defs)
  have a: "apiType (blder ?p) = Some plainWidget" "apiType (blder ?d) = Some defaultingWidget"
    "apiType (blder ?w) = Some widget"
    "server ?p = \<lparr>webhooks = []\<rparr>" "server ?d = \<lparr>webhooks = []\<rparr>" "server ?w = \<lparr>webhooks = []\<rparr>"
    by (simp_all add: example_defs)
  have fresh: "''/mutate-apps-example-com-v1-widget'' \<notin> registeredPaths \<lparr>webhooks = []\<rparr>"
    "''/validate-apps-example-com-v1-widget'' \<notin> registeredPaths \<lparr>webhooks = []\<rparr>"
    by (simp_all add: registeredPaths_def)
  note tp = capability_dispatch [of ?p exampleManager ?E widgetGVK widget "Webhook 1" widget
      "Webhook 2", THEN mp, OF hp, unfolded a example_asDefaulter E widget_paths]
  note td = capability_dispatch [of ?d exampleManager ?E widgetGVK defaultingWidget "Webhook 1"
      widget "Webhook 2", THEN mp, OF hd, unfolded a example_asDefaulter E widget_paths]
  note tw = capability_dispatch [of ?w exampleManager ?E widgetGVK widget "Webhook 1" widget
      "Webhook 2", THEN mp, OF hw, unfolded a example_asDefaulter E widget_paths]
  note tn = capability_dispatch [of ?w exampleManager ?N widgetGVK widget "Webhook 1" widget
      "Webhook 2", THEN mp, OF hn, unfolded a example_asDefaulter E widget_paths]
  from tp have 1: "fst (Complete ?E ?p) = Return None"
    and 2: "webhooks (server (snd (Complete ?E ?p))) = []" by simp_all
  from td fresh have "webhooks (server (snd (Complete ?E ?d)))
      = webhooks \<lparr>webhooks = []\<rparr> @ [(''/mutate-apps-example-com-v1-widget'', Webhook 1)]"
    by blast
  then have 3: "webhooks (server (snd (Complete ?E ?d)))
      = [(''/mutate-apps-example-com-v1-widget'', Webhook 1)]" by simp
  from tw fresh have "webhooks (server (snd (Complete ?E ?w)))
      = webhooks \<lparr>webhooks = []\<rparr> @ [(''/mutate-apps-example-com-v1-widget'', Webhook 1),
         (''/validate-apps-example-com-v1-widget'', Webhook 2)]"
    by blast
  then have 4: "webhooks (server (snd (Complete ?E ?w)))
      = [(''/mutate-apps-example-com-v1-widget'', Webhook 1),
         (''/validate-apps-example-com-v1-widget'', Webhook 2)]" by simp
  from tn have 5: "fst (Complete ?N ?w) = Return None"
    and 6: "webhooks (server (snd (Complete ?N ?w))) = []" by simp_all
  from 1 2 3 4 5 6 show ?thesis by blast
qed

text \<open>
  Claim C9. With no manager bound \<open>Complete\<close> never returns success. In particular,
  when no config is set, no manager is bound and the ambient loader succeeds,
  \<open>Complete\<close> stores the loaded config and then panics on the nil manager, with no
  registry lookup and no registration. So a successful \<open>Complete\<close> had a bound
  manager.
\<close>

theorem nil_manager_panics:
  "(mgr (blder st) = None \<longrightarrow> fst (Complete E st) \<noteq> Return None)
   \<and> (config (blder st) = None \<and> mgr (blder st) = None \<and> snd (getConfig E) = None \<longrightarrow>
        fst (Complete E st) = Panic
        \<and> config (blder (snd (Complete E st))) = fst (getConfig E)
        \<and> server (snd (Complete E st)) = server st
        \<and> events (snd (Complete E st)) = events st @ [CallGetConfig])
   \<and> (fst (Complete E st) = Return None \<longrightarrow> mgr (blder st) \<noteq> None)"
proof -
  have "fst (Complete E st) \<noteq> Return None" if "mgr (blder st) = None"
    using that by (simp add: Complete_unbound split: option.splits)
  moreover have "fst (Complete E st) = Panic
        \<and> config (blder (snd (Complete E st))) = fst (getConfig E)
        \<and> server (snd (Complete E st)) = server st
        \<and> events (snd (Complete E st)) = events st @ [CallGetConfig]"
    if "config (blder st) = None \<and> mgr (blder st) = None \<and> snd (getConfig E) = None"
    using that by (simp add: Complete_unbound)
  ultimately show ?thesis by blast
qed

text \<open>C9 at a builder without a manager and an ambient loader that succeeds.\<close>

theorem nil_manager_panics_witness:
  "config (blder (freshState (For (Some widget) (WebhookManagedBy None)))) = None
   \<and> mgr (blder (freshState (For (Some widget) (WebhookManagedBy None)))) = None
   \<and> snd (getConfig (exampleCollaborators\<lparr>getConfig := (Some 5, None)\<rparr>)) = None
   \<and> fst (Complete (exampleCollaborators\<lparr>getConfig := (Some 5, None)\<rparr>)
        (freshState (For (Some widget) (WebhookManagedBy None)))) = Panic
   \<and> config (blder (snd (Complete (exampleCollaborators\<lparr>getConfig := (Some 5, None)\<rparr>)
        (freshState (For (Some widget) (WebhookManagedBy None))))))  = Some 5
   \<and> events (snd (Complete (exampleCollaborators\<lparr>getConfig := (Some 5, None)\<rparr>)
        (freshState (For (Some widget) (WebhookManagedBy None))))) = [CallGetConfig]"
proof -
  let ?E = "exampleCollaborators\<lparr>getConfig := (Some 5, None)\<rparr>"
  let ?st = "freshState (For (Some widget) (WebhookManagedBy None))"
  have h: "config (blder ?st) = None \<and> mgr (blder ?st) = None \<and> snd (getConfig ?E) = None"
    by (simp add: example_defs)
  have v: "fst (getConfig ?E) = Some 5" "events ?st = []"
    by (simp_all add: example_defs)
  from nil_manager_panics [of ?st ?E] h
  have "fst (Complete ?E ?st) = Panic
        \<and> config (blder (snd (Complete ?E ?st))) = fst (getConfig ?E)
        \<and> events (snd (Complete ?E ?st)) = events ?st @ [CallGetConfig]"
    by blast
  then show ?thesis using h v by simp
qed

text \<open>
  Claim C10. After a successful \<open>Complete\<close>, a second \<open>Complete\<close> on the
  resulting state succeeds too, config resolution changes nothing, and the builder (its
  identity included) and the path table stay as they are: both registration steps find
  their path in the table. No registration is logged by the second run.
\<close>

theorem second_Complete_idempotent:
  "Complete E st = (Return None, st1) \<longrightarrow>
     fst (Complete E st1) = Return None
     \<and> loadRestConfig E st1 = (None, st1)
     \<and> server (snd (Complete E st1)) = server st1
     \<and> blder (snd (Complete E st1)) = blder st1
     \<and> (\<forall>msg g p. LogInfo msg g p \<in> set (events (snd (Complete E st1))) \<longrightarrow>
           LogInfo msg g p \<in> set (events st1))"
proof
  assume c: "Complete E st = (Return None, st1)"
  then have "fst (Complete E st) = Return None" by simp
  then obtain m g where m: "mgr (blder st) = Some m"
    and g: "GVKForObject E (apiType (blder st)) (GetScheme m) = (g, None)"
    by (rule Complete_success_bound)
  from c m g have st1: "st1 = expectedState E st m g" by (simp add: Complete_ok)
  have m1: "mgr (blder st1) = Some m" and a1: "apiType (blder st1) = apiType (blder st)"
    using m by (simp_all add: st1 expectedState_def)
  have g1: "GVKForObject E (apiType (blder st1)) (GetScheme m) = (g, None)"
    using g a1 by simp
  have c2: "Complete E st1 = (Return None, expectedState E st1 m g)"
    using m1 g1 by (rule Complete_ok)
  have srv: "server st1 = (server st)\<lparr>webhooks := webhooks (server st)
      @ expectedMutating E (apiType (blder st)) g (server st)
      @ expectedValidating E (apiType (blder st)) g (server st)\<rparr>"
    by (simp add: st1 expectedState_def)
  have em: "expectedMutating E (apiType (blder st1)) g (server st1) = []"
    unfolding a1 srv by (rule expectedMutating_settled)
  have ev: "expectedValidating E (apiType (blder st1)) g (server st1) = []"
    unfolding a1 srv by (rule expectedValidating_settled)
  have b: "blder (expectedState E st1 m g) = blder st1"
    by (simp add: expectedState_def st1 split: option.splits)
  have s: "server (expectedState E st1 m g) = server st1"
    by (simp add: expectedState_def[of E st1] em ev)
  have e: "events (expectedState E st1 m g)
      = events st1 @ [CallGVKForObject] @ conversionLog E m (apiType (blder st1)) g"
    by (simp add: expectedState_def[of E st1] em ev registrationLog_def)
  have "config (blder st1) = (case config (blder st1) of Some c \<Rightarrow> Some c | None \<Rightarrow> GetConfig m)"
    by (simp add: st1 expectedState_def split: option.splits)
  then have l: "loadRestConfig E st1 = (None, st1)"
    by (simp add: loadRestConfig_bound [OF m1])
  show "fst (Complete E st1) = Return None
     \<and> loadRestConfig E st1 = (None, st1)
     \<and> server (snd (Complete E st1)) = server st1
     \<and> blder (snd (Complete E st1)) = blder st1
     \<and> (\<forall>msg g p. LogInfo msg g p \<in> set (events (snd (Complete E st1))) \<longrightarrow>
           LogInfo msg g p \<in> set (events st1))"
    by (auto simp: c2 b s e l conversionLog_def split: option.splits)
qed

text \<open>C10 at the object with both capabilities, from an empty path table.\<close>

theorem second_Complete_idempotent_witness:
  "Complete exampleCollaborators
     (freshState (For (Some widget) (WebhookManagedBy (Some exampleManager))))
   = (Return None,
      \<lparr>blder = \<lparr>apiType = Some widget, gvk = widgetGVK, mgr = Some exampleManager,
                 config = Some 1\<rparr>,
       server = \<lparr>webhooks = [(''/mutate-apps-example-com-v1-widget'', Webhook 1),
                              (''/validate-apps-example-com-v1-widget'', Webhook 2)]\<rparr>,
       events = [CallGVKForObject,
                 LogInfo ''Registering a mutating webhook'' widgetGVK
                   ''/mutate-apps-example-com-v1-widget'',
                 LogInfo ''Registering a validating webhook'' widgetGVK
                   ''/validate-apps-example-com-v1-widget'',
                 CallCheckConvertibility,
                 LogError ''not convertible'' ''conversion check failed'' widgetGVK]\<rparr>)
   \<and> fst (Complete exampleCollaborators
      \<lparr>blder = \<lparr>apiType = Some widget, gvk = widgetGVK, mgr = Some exampleManager,
                 config = Some 1\<rparr>,
       server = \<lparr>webhooks = [(''/mutate-apps-example-com-v1-widget'', Webhook 1),
                              (''/validate-apps-example-com-v1-widget'', Webhook 2)]\<rparr>,
       events = [CallGVKForObject,
                 LogInfo ''Registering a mutating webhook'' widgetGVK
                   ''/mutate-apps-example-com-v1-widget'',
                 LogInfo ''Registering a validating webhook'' widgetGVK
                   ''/validate-apps-example-com-v1-widget'',
                 CallCheckConvertibility,
                 LogError ''not convertible'' ''conversion check failed'' widgetGVK]\<rparr>)
     = Return None
   \<and> webhooks (server (snd (Complete exampleCollaborators
      \<lparr>blder = \<lparr>apiType = Some widget, gvk = widgetGVK, mgr = Some exampleManager,
                 config = Some 1\<rparr>,
       server = \<lparr>webhooks = [(''/mutate-apps-example-com-v1-widget'', Webhook 1),
                              (''/validate-apps-example-com-v1-widget'', Webhook 2)]\<rparr>,
       events = [CallGVKForObject,
                 LogInfo ''Registering a mutating webhook'' widgetGVK
                   ''/mutate-apps-example-com-v1-widget'',
                 LogInfo ''Registering a validating webhook'' widgetGVK
                   ''/validate-apps-example-com-v1-widget'',
                 CallCheckConvertibility,
                 LogError ''not convertible'' ''conversion check failed'' widgetGVK]\<rparr>)))
     = [(''/mutate-apps-example-com-v1-widget'', Webhook 1),
        (''/validate-apps-example-com-v1-widget'', Webhook 2)]"
proof -
  let ?st = "freshState (For (Some widget) (WebhookManagedBy (Some exampleManager)))"
  let ?st1 = "\<lparr>blder = \<lparr>apiType = Some widget, gvk = widgetGVK, mgr = Some exampleManager,
                 config = Some 1\<rparr>,
       server = \<lparr>webhooks = [(''/mutate-apps-example-com-v1-widget'', Webhook 1),
                              (''/validate-apps-example-com-v1-widget'', Webhook 2)]\<rparr>,
       events = [CallGVKForObject,
                 LogInfo ''Registering a mutating webhook'' widgetGVK
                   ''/mutate-apps-example-com-v1-widget'',
                 LogInfo ''Registering a validating webhook'' widgetGVK
                   ''/validate-apps-example-com-v1-widget'',
                 CallCheckConvertibility,
                 LogError ''not convertible'' ''conversion check failed'' widgetGVK]\<rparr>"
  have m: "mgr (blder ?st) = Some exampleManager"
    and g: "GVKForObject exampleCollaborators (apiType (blder ?st)) (GetScheme exampleManager)
      = (widgetGVK, None)"
    by (simp_all add: example_defs)
  have x: "expectedMutating exampleCollaborators (Some widget) widgetGVK \<lparr>webhooks = []\<rparr>
      = [(''/mutate-apps-example-com-v1-widget'', Webhook 1)]"
    "expectedValidating exampleCollaborators (Some widget) widgetGVK \<lparr>webhooks = []\<rparr>
      = [(''/validate-apps-example-com-v1-widget'', Webhook 2)]"
    by (simp_all add: expectedMutating_def expectedValidating_def example_asDefaulter
        registeredPaths_def exampleCollaborators_def widget_paths)
  have s: "expectedState exampleCollaborators ?st exampleManager widgetGVK = ?st1"
    by (simp add: expectedState_def freshState_def For_def WebhookManagedBy_def x
        registrationLog_def conversionLog_def)
      (simp add: exampleCollaborators_def exampleManager_def)
  have c: "Complete exampleCollaborators ?st = (Return None, ?st1)"
    using Complete_ok [OF m g] s by simp
  from second_Complete_idempotent [of exampleCollaborators ?st ?st1] c
  have "fst (Complete exampleCollaborators ?st1) = Return None
     \<and> server (snd (Complete exampleCollaborators ?st1)) = server ?st1"
    by blast
  then show ?thesis using c by simp
qed

end
